theory Spec2Isabelle
  imports Main
begin

section \<open>JavaScript values and objects\<close>

text \<open>
  The module \<^verbatim>\<open>src/components/Model/model.utils.ts\<close> handles plain JavaScript
  values: URL query values (strings and arrays of strings), booleans set by callers of
  \<^verbatim>\<open>set\<close>, and whatever the filter store holds. Numbers are kept as integers;
  no function of the module computes with them.
\<close>

datatype jsval =
    JUndefined
  | JNull
  | JBool bool
  | JNum int
  | JStr string
  | JArr "jsval list"
  | JObj "(string \<times> jsval) list"

text \<open>
  An object the module reads or builds is a finite map from keys to values. A key that is
  present with the value \<^verbatim>\<open>undefined\<close> is \<open>Some JUndefined\<close>, an absent key is
  \<open>None\<close>; the enumeration order of keys is not part of the model.
\<close>

type_synonym jsobj = "string \<rightharpoonup> jsval"

text \<open>Property read \<^verbatim>\<open>obj[k]\<close>: an absent key reads as \<^verbatim>\<open>undefined\<close>.\<close>

definition jsget :: "jsobj \<Rightarrow> string \<Rightarrow> jsval" where
  "jsget obj k = (case obj k of None \<Rightarrow> JUndefined | Some v \<Rightarrow> v)"

text \<open>Object spread \<^verbatim>\<open>{ ...a, ...b }\<close>: the keys of \<open>b\<close> win.\<close>

definition spread :: "jsobj \<Rightarrow> jsobj \<Rightarrow> jsobj" where
  "spread a b = a ++ b"

section \<open>The schema combinators the module uses\<close>

text \<open>
  A schema is its parse function: \<open>None\<close> is a validation failure, \<open>Some v\<close> the
  parsed output. The combinators are those of the validation library (zod 3) that
  \<^verbatim>\<open>modelQueryParamSchema\<close> is built from.
\<close>

type_synonym schema = "jsval \<Rightarrow> jsval option"

type_synonym shape = "(string \<times> schema) list"

text \<open>\<^verbatim>\<open>z.string()\<close>\<close>

definition z_string :: schema where
  "z_string v = (case v of JStr s \<Rightarrow> Some (JStr s) | _ \<Rightarrow> None)"

text \<open>\<^verbatim>\<open>z.boolean()\<close>\<close>

definition z_boolean :: schema where
  "z_boolean v = (case v of JBool b \<Rightarrow> Some (JBool b) | _ \<Rightarrow> None)"

text \<open>\<^verbatim>\<open>z.enum([...])\<close>: one of the listed string literals.\<close>

definition z_enum :: "string list \<Rightarrow> schema" where
  "z_enum vals v = (case v of JStr s \<Rightarrow> if s \<in> set vals then Some (JStr s) else None
                    | _ \<Rightarrow> None)"

text \<open>
  \<^verbatim>\<open>z.nativeEnum(E)\<close> for a string enumeration \<open>E\<close>, given by the list of its
  values.
\<close>

definition z_nativeEnum :: "string list \<Rightarrow> schema" where
  "z_nativeEnum vals v = (case v of JStr s \<Rightarrow> if s \<in> set vals then Some (JStr s) else None
                          | _ \<Rightarrow> None)"

text \<open>\<^verbatim>\<open>z.preprocess(f, s)\<close>: \<open>f\<close> runs on the raw input, then \<open>s\<close> parses.\<close>

definition z_preprocess :: "(jsval \<Rightarrow> jsval) \<Rightarrow> schema \<Rightarrow> schema" where
  "z_preprocess f s v = s (f v)"

text \<open>\<^verbatim>\<open>s.optional()\<close>: \<^verbatim>\<open>undefined\<close> passes through, anything else goes to \<open>s\<close>.\<close>

definition z_optional :: "schema \<Rightarrow> schema" where
  "z_optional s v = (if v = JUndefined then Some JUndefined else s v)"

text \<open>\<^verbatim>\<open>.partial()\<close> on an object schema makes every field optional.\<close>

definition z_partial :: "shape \<Rightarrow> shape" where
  "z_partial sh = map (\<lambda>(k, s). (k, z_optional s)) sh"

text \<open>
  \<^verbatim>\<open>.extend({ k: s })\<close> on an object schema: the shape \<^verbatim>\<open>{ ...shape, k: s }\<close>. An
  existing key keeps its place and takes the new schema, a new key is added.
\<close>

fun z_extend1 :: "shape \<Rightarrow> string \<Rightarrow> schema \<Rightarrow> shape" where
  "z_extend1 [] k s = [(k, s)]"
| "z_extend1 ((k', s') # sh) k s =
     (if k' = k then (k, s) # sh else (k', s') # z_extend1 sh k s)"

text \<open>
  \<^verbatim>\<open>safeParse\<close> of an object schema in the default (strip) mode, on an input that is an
  object. Every field of the shape is parsed from the input's property of that name; one
  failing field fails the whole parse. A parsed field is written to the output when its
  value is not \<^verbatim>\<open>undefined\<close> or the key is in the input. Keys outside the shape are
  dropped.
\<close>

fun safeParse :: "shape \<Rightarrow> jsobj \<Rightarrow> jsobj option" where
  "safeParse [] inp = Some Map.empty"
| "safeParse ((k, s) # sh) inp =
     (case s (jsget inp k) of
        None \<Rightarrow> None
      | Some v \<Rightarrow>
          (case safeParse sh inp of
             None \<Rightarrow> None
           | Some out \<Rightarrow>
               Some (if v \<noteq> JUndefined \<or> inp k \<noteq> None then out(k \<mapsto> v) else out)))"

section \<open>What the module imports\<close>

text \<open>
  The enumerations and the two schemas that \<^verbatim>\<open>model.utils.ts\<close> imports are not among
  the sources. They are parameters of the model: the enumerations by their lists of
  values, \<^verbatim>\<open>periodModeSchema\<close> as any schema, \<^verbatim>\<open>usernameSchema\<close> as any schema
  with string output. Two more parameters stand for what the specification and the
  model of numbers leave open: \<open>openEmpty\<close>, whether \<^verbatim>\<open>null\<close>, \<^verbatim>\<open>0\<close> and the
  empty containers count as empty for \<^verbatim>\<open>removeEmpty\<close>, and \<open>numberToString\<close>, the
  text \<^verbatim>\<open>String(n)\<close> of a number.
\<close>

record env =
  MetricTimeframe :: "string list"
  ModelSort :: "string list"
  AppSort :: "string list"
  periodModeSchema :: schema
  usernameSchema :: "jsval \<Rightarrow> string option"
  openEmpty :: "jsval \<Rightarrow> bool"
  numberToString :: "int \<Rightarrow> string"

text \<open>
  Modelled from the spec: the emptiness predicate of \<^verbatim>\<open>removeEmpty\<close>, which is
  missing from the sources. The spec fixes it on three values, by the reduction of
  \<^verbatim>\<open>{a: undefined, b: "", c: "x"}\<close> to \<^verbatim>\<open>{c: "x"}\<close>: \<^verbatim>\<open>undefined\<close> and
  \<^verbatim>\<open>""\<close> are empty, a string with characters is not. It names \<^verbatim>\<open>null\<close>,
  \<^verbatim>\<open>0\<close> and the empty containers as the values whose treatment is still to be pinned
  down: those are decided by \<open>openEmpty\<close>. Every other value is a value and is kept.
\<close>

definition emptyValue :: "env \<Rightarrow> jsval \<Rightarrow> bool" where
  "emptyValue e v =
     (case v of
        JUndefined \<Rightarrow> True
      | JStr s \<Rightarrow> s = []
      | JNull \<Rightarrow> openEmpty e JNull
      | JNum n \<Rightarrow> n = 0 \<and> openEmpty e (JNum 0)
      | JArr xs \<Rightarrow> xs = [] \<and> openEmpty e (JArr [])
      | JObj kvs \<Rightarrow> kvs = [] \<and> openEmpty e (JObj [])
      | JBool b \<Rightarrow> False)"

text \<open>
  Modelled from the spec: \<^verbatim>\<open>removeEmpty\<close> of \<^verbatim>\<open>~/utils/object-helpers\<close> is
  missing from the sources. The spec has it return the object "with all empty-valued
  fields removed", and has it succeed always: "absence of data yields an empty
  result". The argument is \<open>None\<close> when the caller passes \<^verbatim>\<open>undefined\<close>.
\<close>

definition removeEmpty :: "(jsval \<Rightarrow> bool) \<Rightarrow> jsobj option \<Rightarrow> jsobj" where
  "removeEmpty emp arg =
     (case arg of
        None \<Rightarrow> Map.empty
      | Some obj \<Rightarrow>
          (\<lambda>k. case obj k of None \<Rightarrow> None | Some v \<Rightarrow> if emp v then None else Some v))"

section \<open>Username normalisation\<close>

text \<open>The character class \<^verbatim>\<open>[a-zA-Z0-9_]\<close>.\<close>

definition is_slug_char :: "char \<Rightarrow> bool" where
  "is_slug_char c =
     (let n = (of_char c :: nat)
      in (97 \<le> n \<and> n \<le> 122) \<or> (65 \<le> n \<and> n \<le> 90) \<or> (48 \<le> n \<and> n \<le> 57) \<or> n = 95)"

text \<open>Lower case of one ASCII character.\<close>

definition lower_char :: "char \<Rightarrow> char" where
  "lower_char c =
     (let n = (of_char c :: nat) in if 65 \<le> n \<and> n \<le> 90 then char_of (n + 32) else c)"

text \<open>
  Modelled from the spec: \<^verbatim>\<open>postgresSlugify\<close> of \<^verbatim>\<open>~/utils/string-helpers\<close> is
  missing from the sources. The spec's glossary has slugify normalise a string "into a
  URL-safe, lowercase, delimiter-consistent form": a space becomes the delimiter
  \<^verbatim>\<open>_\<close>, every character outside \<^verbatim>\<open>[a-zA-Z0-9_]\<close> is dropped, and the rest is put
  in lower case.
\<close>

definition postgresSlugify :: "string \<Rightarrow> string" where
  "postgresSlugify str =
     map lower_char
       (filter is_slug_char (map (\<lambda>c. if c = CHR '' '' then CHR ''_'' else c) str))"

section \<open>Filter state readers\<close>

text \<open>
  The two slices of the filter store that the module selects. A slice that the store
  does not hold reads as \<^verbatim>\<open>undefined\<close>, which is \<open>None\<close>.
\<close>

record filters_state =
  models :: "jsobj option"
  apps :: "jsobj option"

definition useModelFilters :: "env \<Rightarrow> filters_state \<Rightarrow> jsobj" where
  "useModelFilters e state = (let storeFilters = models state in removeEmpty (emptyValue e) storeFilters)"

definition useAppFilters :: "env \<Rightarrow> filters_state \<Rightarrow> jsobj" where
  "useAppFilters e state = (let storeFilters = apps state in removeEmpty (emptyValue e) storeFilters)"

section \<open>Query-parameter codec\<close>

text \<open>The preprocessing step of \<^verbatim>\<open>favorites\<close> and \<^verbatim>\<open>hidden\<close>.\<close>

definition isTrue :: "jsval \<Rightarrow> jsval" where
  "isTrue val = JBool (val = JBool True \<or> val = JStr ''true'')"

text \<open>\<^verbatim>\<open>usernameSchema.transform(postgresSlugify)\<close>\<close>

definition usernameField :: "env \<Rightarrow> schema" where
  "usernameField e v =
     (case usernameSchema e v of None \<Rightarrow> None | Some s \<Rightarrow> Some (JStr (postgresSlugify s)))"

definition modelQueryParamShape :: "env \<Rightarrow> shape" where
  "modelQueryParamShape e =
     [(''period'', z_nativeEnum (MetricTimeframe e)),
      (''periodMode'', periodModeSchema e),
      (''sort'', z_nativeEnum (ModelSort e)),
      (''query'', z_string),
      (''user'', z_string),
      (''username'', usernameField e),
      (''tagname'', z_string),
      (''tag'', z_string),
      (''favorites'', z_preprocess isTrue z_boolean),
      (''hidden'', z_preprocess isTrue z_boolean),
      (''view'', z_enum [''categories'', ''feed''])]"

definition modelQueryParamSchema :: "env \<Rightarrow> shape" where
  "modelQueryParamSchema e = z_partial (modelQueryParamShape e)"

definition appQueryParamSchema :: "env \<Rightarrow> shape" where
  "appQueryParamSchema e =
     z_partial (z_extend1 (modelQueryParamSchema e) ''sort'' (z_nativeEnum (AppSort e)))"

text \<open>The router state the hooks read, and the call to \<^verbatim>\<open>replace\<close> that \<^verbatim>\<open>set\<close> makes.\<close>

record router =
  query :: jsobj
  pathname :: string

record replace_call =
  url_pathname :: string
  url_query :: jsobj
  shallow :: bool

text \<open>
  The value of a codec hook: the parsed fields (\<^verbatim>\<open>...data\<close>) and the closure
  \<^verbatim>\<open>set\<close> (here \<open>set_params\<close>). No field of the schema is named \<^verbatim>\<open>set\<close>,
  so the closure overwrites nothing.
\<close>

record query_params =
  data :: jsobj
  set_params :: "jsobj \<Rightarrow> replace_call"

definition defaultData :: jsobj where
  "defaultData = [''view'' \<mapsto> JStr ''categories'']"

definition useModelQueryParams :: "env \<Rightarrow> router \<Rightarrow> query_params" where
  "useModelQueryParams e r =
     (let result = safeParse (modelQueryParamSchema e) (query r);
          data = (case result of Some d \<Rightarrow> d | None \<Rightarrow> defaultData)
      in \<lparr>data = data,
          set_params = (\<lambda>filters.
            \<lparr>url_pathname = pathname r,
             url_query = removeEmpty (emptyValue e) (Some (spread (query r) filters)),
             shallow = True\<rparr>)\<rparr>)"

definition useAppQueryParams :: "env \<Rightarrow> router \<Rightarrow> query_params" where
  "useAppQueryParams e r =
     (let result = safeParse (appQueryParamSchema e) (query r);
          data = (case result of Some d \<Rightarrow> d | None \<Rightarrow> defaultData)
      in \<lparr>data = data,
          set_params = (\<lambda>filters.
            \<lparr>url_pathname = pathname r,
             url_query = removeEmpty (emptyValue e) (Some (spread (query r) filters)),
             shallow = True\<rparr>)\<rparr>)"

text \<open>
  Outside the module: the router (Next.js, pages router). \<^verbatim>\<open>replace\<close> writes the
  query object of the call into the address as a query string and the router's
  \<^verbatim>\<open>query\<close> is then read back from that string. Writing turns a string into itself,
  a number and a boolean into their text and any other value into the empty string; an
  array gives one entry for each of its elements. Reading gives a key with one entry that
  entry as a string, a key with several entries the array of them, and no key where
  there was no entry. The model is of a page whose path has no dynamic segment.
\<close>

definition stringifyUrlQueryParam :: "env \<Rightarrow> jsval \<Rightarrow> string" where
  "stringifyUrlQueryParam e param =
     (case param of
        JStr s \<Rightarrow> s
      | JNum n \<Rightarrow> numberToString e n
      | JBool b \<Rightarrow> (if b then ''true'' else ''false'')
      | _ \<Rightarrow> [])"

definition urlQueryValue :: "env \<Rightarrow> jsval \<Rightarrow> jsval option" where
  "urlQueryValue e v =
     (case (case v of JArr xs \<Rightarrow> map (stringifyUrlQueryParam e) xs
                    | _ \<Rightarrow> [stringifyUrlQueryParam e v]) of
        [] \<Rightarrow> None
      | [s] \<Rightarrow> Some (JStr s)
      | s # t # ss \<Rightarrow> Some (JArr (map JStr (s # t # ss))))"

definition routerQuery :: "env \<Rightarrow> jsobj \<Rightarrow> jsobj" where
  "routerQuery e obj = (\<lambda>k. case obj k of None \<Rightarrow> None | Some v \<Rightarrow> urlQueryValue e v)"

definition replace :: "env \<Rightarrow> router \<Rightarrow> replace_call \<Rightarrow> router" where
  "replace e r c = r\<lparr>query := routerQuery e (url_query c), pathname := url_pathname c\<rparr>"

text \<open>
  Calling \<^verbatim>\<open>set\<close> of a codec hook on a router: the router after the call to
  \<^verbatim>\<open>replace\<close> that \<^verbatim>\<open>set\<close> makes.
\<close>

definition afterSet :: "env \<Rightarrow> (env \<Rightarrow> router \<Rightarrow> query_params) \<Rightarrow> jsobj \<Rightarrow> router \<Rightarrow> router" where
  "afterSet e hook filters r = replace e r (set_params (hook e r) filters)"

section \<open>Paginated fetch hooks\<close>

text \<open>
  A page of a list endpoint: its items and the cursor of the page after it
  (\<^verbatim>\<open>undefined\<close> when there is none). The loaded data is the array \<^verbatim>\<open>pages\<close>; an
  entry of it may be \<^verbatim>\<open>undefined\<close>, which is \<open>None\<close>.
\<close>

record 'a page =
  items :: "'a list"
  nextCursor :: jsval

record 'a infinite_data =
  pages :: "'a page option list"

text \<open>The three procedures of \<^verbatim>\<open>trpc.model\<close> that the hooks query.\<close>

datatype procedure = GetAll | GetAllAppsOnly | GetAllModelsOnly

record query_options =
  keepPreviousData :: "bool option"
  enabled :: "bool option"

text \<open>The arguments a hook hands to \<^verbatim>\<open>useInfiniteQuery\<close>.\<close>

record 'a infinite_query =
  procedure :: procedure
  input :: jsobj
  getNextPageParam :: "'a page option \<Rightarrow> jsval"
  getPreviousPageParam :: "'a page option \<Rightarrow> jsval"
  skipBatch :: bool
  query_options :: "query_options option"

text \<open>What a hook returns: the data, the flattened items and the other fields untouched.\<close>

record ('a, 'r) query_hook =
  data :: "'a infinite_data option"
  models :: "'a list"
  rest :: 'r

definition useQueryModels_query :: "jsobj option \<Rightarrow> query_options option \<Rightarrow> 'a infinite_query" where
  "useQueryModels_query filters options =
     (let filters = (case filters of None \<Rightarrow> Map.empty | Some f \<Rightarrow> f)
      in \<lparr>procedure = GetAll,
          input = filters,
          getNextPageParam = (\<lambda>lastPage. case lastPage of Some p \<Rightarrow> nextCursor p | None \<Rightarrow> JNum 0),
          getPreviousPageParam = (\<lambda>firstPage. case firstPage of Some p \<Rightarrow> nextCursor p | None \<Rightarrow> JNum 0),
          skipBatch = True,
          query_options = options\<rparr>)"

definition useQueryModels ::
  "('a infinite_query \<Rightarrow> 'a infinite_data option \<times> 'r) \<Rightarrow> jsobj option \<Rightarrow> query_options option
     \<Rightarrow> ('a, 'r) query_hook" where
  "useQueryModels useInfiniteQuery filters options =
     (let (data, rest) = useInfiniteQuery (useQueryModels_query filters options);
          models = (case data of
                      None \<Rightarrow> []
                    | Some d \<Rightarrow> concat (map (\<lambda>x. case x of Some p \<Rightarrow> items p | None \<Rightarrow> []) (pages d)))
      in \<lparr>data = data, models = models, rest = rest\<rparr>)"

definition useQueryApps_query :: "jsobj option \<Rightarrow> query_options option \<Rightarrow> 'a infinite_query" where
  "useQueryApps_query filters options =
     (let filters = (case filters of None \<Rightarrow> Map.empty | Some f \<Rightarrow> f)
      in \<lparr>procedure = GetAllAppsOnly,
          input = filters,
          getNextPageParam = (\<lambda>lastPage. case lastPage of Some p \<Rightarrow> nextCursor p | None \<Rightarrow> JNum 0),
          getPreviousPageParam = (\<lambda>firstPage. case firstPage of Some p \<Rightarrow> nextCursor p | None \<Rightarrow> JNum 0),
          skipBatch = True,
          query_options = options\<rparr>)"

definition useQueryApps ::
  "('a infinite_query \<Rightarrow> 'a infinite_data option \<times> 'r) \<Rightarrow> jsobj option \<Rightarrow> query_options option
     \<Rightarrow> ('a, 'r) query_hook" where
  "useQueryApps useInfiniteQuery filters options =
     (let (data, rest) = useInfiniteQuery (useQueryApps_query filters options);
          models = (case data of
                      None \<Rightarrow> []
                    | Some d \<Rightarrow> concat (map (\<lambda>x. case x of Some p \<Rightarrow> items p | None \<Rightarrow> []) (pages d)))
      in \<lparr>data = data, models = models, rest = rest\<rparr>)"

definition useQueryModelsOnly_query :: "jsobj option \<Rightarrow> query_options option \<Rightarrow> 'a infinite_query" where
  "useQueryModelsOnly_query filters options =
     (let filters = (case filters of None \<Rightarrow> Map.empty | Some f \<Rightarrow> f)
      in \<lparr>procedure = GetAllModelsOnly,
          input = filters,
          getNextPageParam = (\<lambda>lastPage. case lastPage of Some p \<Rightarrow> nextCursor p | None \<Rightarrow> JNum 0),
          getPreviousPageParam = (\<lambda>firstPage. case firstPage of Some p \<Rightarrow> nextCursor p | None \<Rightarrow> JNum 0),
          skipBatch = True,
          query_options = options\<rparr>)"

definition useQueryModelsOnly ::
  "('a infinite_query \<Rightarrow> 'a infinite_data option \<times> 'r) \<Rightarrow> jsobj option \<Rightarrow> query_options option
     \<Rightarrow> ('a, 'r) query_hook" where
  "useQueryModelsOnly useInfiniteQuery filters options =
     (let (data, rest) = useInfiniteQuery (useQueryModelsOnly_query filters options);
          models = (case data of
                      None \<Rightarrow> []
                    | Some d \<Rightarrow> concat (map (\<lambda>x. case x of Some p \<Rightarrow> items p | None \<Rightarrow> []) (pages d)))
      in \<lparr>data = data, models = models, rest = rest\<rparr>)"

text \<open>
  Outside the module: the query library (react-query 4) behind \<^verbatim>\<open>useInfiniteQuery\<close>.
  \<^verbatim>\<open>fetchNextPage()\<close> and \<^verbatim>\<open>fetchPreviousPage()\<close>, called without a page parameter
  of the caller's, work on the loaded pages, \<^verbatim>\<open>data?.pages || []\<close>. With no page
  loaded they fetch the first page, whose page parameter is \<^verbatim>\<open>undefined\<close>; the
  callbacks are not asked. Otherwise the page parameter is what
  \<^verbatim>\<open>getNextPageParam\<close> gives for the last entry of the pages, or
  \<^verbatim>\<open>getPreviousPageParam\<close> for the first entry, and when that is \<^verbatim>\<open>undefined\<close> no
  request is made. The functions give the page parameter of the request, \<open>None\<close> when
  there is no request.
\<close>

definition fetchNextPage :: "'a infinite_query \<Rightarrow> 'a infinite_data option \<Rightarrow> jsval option" where
  "fetchNextPage q dat =
     (let oldPages = (case dat of None \<Rightarrow> [] | Some d \<Rightarrow> pages d)
      in case oldPages of
           [] \<Rightarrow> Some JUndefined
         | _ # _ \<Rightarrow>
             (let param = getNextPageParam q (last oldPages)
              in if param = JUndefined then None else Some param))"

definition fetchPreviousPage :: "'a infinite_query \<Rightarrow> 'a infinite_data option \<Rightarrow> jsval option" where
  "fetchPreviousPage q dat =
     (let oldPages = (case dat of None \<Rightarrow> [] | Some d \<Rightarrow> pages d)
      in case oldPages of
           [] \<Rightarrow> Some JUndefined
         | x # _ \<Rightarrow>
             (let param = getPreviousPageParam q x
              in if param = JUndefined then None else Some param))"

text \<open>
  The flattening as the specification words it: pages in order, the items of a page in
  their order, nothing for a missing page.
\<close>

fun flattened :: "'a page option list \<Rightarrow> 'a list" where
  "flattened [] = []"
| "flattened (None # ps) = flattened ps"
| "flattened (Some p # ps) = items p @ flattened ps"

text \<open>Decimal digits of a natural number, for the fixture below.\<close>

function decimal :: "nat \<Rightarrow> string" where
  "decimal n = (if n < 10 then [char_of (48 + n)] else decimal (n div 10) @ [char_of (48 + n mod 10)])"
  by pat_completeness auto
termination
  by (relation "measure id") auto

text \<open>Enumerations and schemas to run the codec on: a fixture for the examples below.\<close>

definition sampleEnv :: env where
  "sampleEnv =
     \<lparr>MetricTimeframe = [''Day'', ''Week'', ''Month'', ''Year'', ''AllTime''],
      ModelSort = [''Highest Rated'', ''Newest''],
      AppSort = [''Most Used'', ''Newest''],
      periodModeSchema = z_enum [''stats'', ''published''],
      usernameSchema = (\<lambda>v. case v of JStr s \<Rightarrow> if list_all is_slug_char s then Some s else None
                                 | _ \<Rightarrow> None),
      openEmpty = (\<lambda>v. v = JNull),
      numberToString = (\<lambda>n. if n < 0 then CHR ''-'' # decimal (nat (- n)) else decimal (nat n))\<rparr>"

section \<open>Facts about the schema combinators\<close>

lemma z_optional_idem: "z_optional (z_optional s) = z_optional s"
  by (rule ext) (simp add: z_optional_def)

lemma safeParse_fails:
  "(k, s) \<in> set sh \<Longrightarrow> s (jsget inp k) = None \<Longrightarrow> safeParse sh inp = None"
  by (induction sh) (auto split: option.splits)

lemma safeParse_None_iff:
  "safeParse sh inp = None \<longleftrightarrow> (\<exists>(k, s) \<in> set sh. s (jsget inp k) = None)"
  by (induction sh) (auto split: option.splits)

lemma safeParse_absent:
  "safeParse sh inp = Some out \<Longrightarrow> k \<notin> fst ` set sh \<Longrightarrow> out k = None"
  by (induction sh arbitrary: out) (auto split: option.splits if_splits)

text \<open>
  A field whose parsed value is not \<^verbatim>\<open>undefined\<close> is in the output with that value.
  The shape of an object has each key once.
\<close>

lemma safeParse_field:
  "safeParse sh inp = Some out \<Longrightarrow> distinct (map fst sh) \<Longrightarrow> (k, s) \<in> set sh \<Longrightarrow>
     s (jsget inp k) = Some v \<Longrightarrow> v \<noteq> JUndefined \<Longrightarrow> out k = Some v"
proof (induction sh arbitrary: out)
  case Nil
  then show ?case by simp
next
  case (Cons a sh)
  obtain k' s' where a: "a = (k', s')" by (cases a)
  from Cons.prems(1) a obtain v' out' where
    v': "s' (jsget inp k') = Some v'" and out': "safeParse sh inp = Some out'" and
    out: "out = (if v' \<noteq> JUndefined \<or> inp k' \<noteq> None then out'(k' \<mapsto> v') else out')"
    by (auto split: option.splits)
  show ?case
  proof (cases "k' = k")
    case True
    with Cons.prems(2,3) a have "s' = s"
      by (auto simp: image_iff)
    with True v' Cons.prems(4,5) out show ?thesis by simp
  next
    case False
    with Cons.prems(3) a have "(k, s) \<in> set sh" by simp
    with Cons.IH [OF out'] Cons.prems(2,4,5) have "out' k = Some v" by simp
    with False out show ?thesis by simp
  qed
qed

text \<open>Two shapes with the same keys whose fields agree on the input parse it alike.\<close>

lemma safeParse_cong:
  "list_all2 (\<lambda>(k, s) (k', s'). k = k' \<and> s (jsget inp k) = s' (jsget inp k)) sh sh' \<Longrightarrow>
     safeParse sh inp = safeParse sh' inp"
  by (induction sh sh' rule: list_all2_induct) (auto split: option.splits)

section \<open>Facts about the codec\<close>

lemma usernameField_ModelSort: "usernameField (e\<lparr>ModelSort := xs\<rparr>) = usernameField e"
  by (rule ext) (simp add: usernameField_def)

text \<open>
  Extending the partial model schema by a \<^verbatim>\<open>sort\<close> field and making it partial again
  gives the model schema with the other enumeration at \<^verbatim>\<open>sort\<close>.
\<close>

lemma app_schema_eq:
  "appQueryParamSchema e = modelQueryParamSchema (e\<lparr>ModelSort := AppSort e\<rparr>)"
  by (simp add: appQueryParamSchema_def modelQueryParamSchema_def modelQueryParamShape_def
      z_partial_def z_optional_idem usernameField_ModelSort)

lemma model_keys_distinct: "distinct (map fst (modelQueryParamSchema e))"
  by (simp add: modelQueryParamSchema_def modelQueryParamShape_def z_partial_def)

lemma bool_field:
  "v \<noteq> JUndefined \<Longrightarrow>
     z_optional (z_preprocess isTrue z_boolean) v = Some (JBool (v = JBool True \<or> v = JStr ''true''))"
  by (simp add: z_optional_def z_preprocess_def isTrue_def z_boolean_def)

text \<open>An \<^verbatim>\<open>undefined\<close> value never reaches the preprocessing step: the field stays out.\<close>

lemma bool_field_undefined:
  "z_optional (z_preprocess isTrue z_boolean) JUndefined = Some JUndefined"
  by (simp add: z_optional_def)

lemma model_bool_fields:
  "k = ''favorites'' \<or> k = ''hidden'' \<Longrightarrow>
     (k, z_optional (z_preprocess isTrue z_boolean)) \<in> set (modelQueryParamSchema e)"
  by (auto simp: modelQueryParamSchema_def modelQueryParamShape_def z_partial_def)

lemma map_of_bool_fields:
  "k = ''favorites'' \<or> k = ''hidden'' \<Longrightarrow>
     map_of (modelQueryParamSchema e) k = Some (z_optional (z_preprocess isTrue z_boolean))"
  by (auto simp: modelQueryParamSchema_def modelQueryParamShape_def z_partial_def)

lemma data_model_success:
  "safeParse (modelQueryParamSchema e) (query r) = Some d \<Longrightarrow>
     query_params.data (useModelQueryParams e r) = d"
  by (simp add: useModelQueryParams_def)

lemma data_model_failure:
  "safeParse (modelQueryParamSchema e) (query r) = None \<Longrightarrow>
     query_params.data (useModelQueryParams e r) = defaultData"
  by (simp add: useModelQueryParams_def)

lemma data_app_failure:
  "safeParse (appQueryParamSchema e) (query r) = None \<Longrightarrow>
     query_params.data (useAppQueryParams e r) = defaultData"
  by (simp add: useAppQueryParams_def)

lemma emptyValue_ModelSort: "emptyValue (e\<lparr>ModelSort := xs\<rparr>) = emptyValue e"
  by (rule ext) (simp add: emptyValue_def split: jsval.splits)

lemma app_hook_eq:
  "useAppQueryParams e r = useModelQueryParams (e\<lparr>ModelSort := AppSort e\<rparr>) r"
  by (simp add: useAppQueryParams_def useModelQueryParams_def app_schema_eq emptyValue_ModelSort)

lemma model_bool_end_to_end:
  assumes k: "k = ''favorites'' \<or> k = ''hidden''"
    and q: "query r k = Some v"
    and v: "v \<noteq> JUndefined"
    and ok: "safeParse (modelQueryParamSchema e) (query r) \<noteq> None"
  shows "query_params.data (useModelQueryParams e r) k =
           Some (JBool (v = JBool True \<or> v = JStr ''true''))"
proof -
  from ok obtain d where d: "safeParse (modelQueryParamSchema e) (query r) = Some d" by auto
  have "d k = Some (JBool (v = JBool True \<or> v = JStr ''true''))"
    using safeParse_field [OF d model_keys_distinct model_bool_fields [OF k]] bool_field [OF v] q
    by (simp add: jsget_def)
  with data_model_success [OF d] show ?thesis by simp
qed

lemma removeEmpty_apply:
  "removeEmpty emp (Some obj) k =
     (case obj k of None \<Rightarrow> None | Some v \<Rightarrow> if emp v then None else Some v)"
  by (simp add: removeEmpty_def)

lemma set_model:
  "url_query (set_params (useModelQueryParams e r) f) =
     removeEmpty (emptyValue e) (Some (spread (query r) f))"
  "url_pathname (set_params (useModelQueryParams e r) f) = pathname r"
  "shallow (set_params (useModelQueryParams e r) f)"
  by (simp_all add: useModelQueryParams_def Let_def)

lemma set_app:
  "url_query (set_params (useAppQueryParams e r) f) =
     removeEmpty (emptyValue e) (Some (spread (query r) f))"
  "url_pathname (set_params (useAppQueryParams e r) f) = pathname r"
  "shallow (set_params (useAppQueryParams e r) f)"
  by (simp_all add: useAppQueryParams_def Let_def)

section \<open>Facts about the router\<close>

text \<open>What the router reads back from the address is unchanged by another round.\<close>

lemma urlQueryValue_fixed: "urlQueryValue e v = Some w \<Longrightarrow> urlQueryValue e w = Some w"
  by (auto simp: urlQueryValue_def stringifyUrlQueryParam_def comp_def
      split: list.splits jsval.splits if_splits)

lemma routerQuery_apply:
  "routerQuery e obj k = (case obj k of None \<Rightarrow> None | Some v \<Rightarrow> urlQueryValue e v)"
  by (simp add: routerQuery_def)

text \<open>
  On a query that was read from an address, merging the same update and stripping the
  empty fields a second time gives the query of the first time.
\<close>

lemma set_twice:
  assumes url: "routerQuery e q = q"
  shows "routerQuery e (removeEmpty emp (Some (spread
            (routerQuery e (removeEmpty emp (Some (spread q f)))) f)))
         = routerQuery e (removeEmpty emp (Some (spread q f)))"
proof (rule ext)
  fix k
  show "routerQuery e (removeEmpty emp (Some (spread
            (routerQuery e (removeEmpty emp (Some (spread q f)))) f))) k
         = routerQuery e (removeEmpty emp (Some (spread q f))) k"
  proof (cases "f k")
    case (Some v)
    then show ?thesis
      by (simp add: routerQuery_apply removeEmpty_apply spread_def map_add_def)
  next
    case None
    show ?thesis
    proof (cases "q k")
      case qn: None
      with None show ?thesis
        by (simp add: routerQuery_apply removeEmpty_apply spread_def map_add_def)
    next
      case (Some v)
      from url have "routerQuery e q k = q k" by simp
      with Some have fixed: "urlQueryValue e v = Some v"
        by (simp add: routerQuery_apply)
      with None Some show ?thesis
        by (simp add: routerQuery_apply removeEmpty_apply spread_def map_add_def)
    qed
  qed
qed

lemma afterSet_query:
  "query (afterSet e useModelQueryParams f r) =
     routerQuery e (removeEmpty (emptyValue e) (Some (spread (query r) f)))"
  "query (afterSet e useAppQueryParams f r) =
     routerQuery e (removeEmpty (emptyValue e) (Some (spread (query r) f)))"
  "pathname (afterSet e useModelQueryParams f r) = pathname r"
  "pathname (afterSet e useAppQueryParams f r) = pathname r"
  by (simp_all add: afterSet_def replace_def set_model set_app)

lemma afterSet_app: "afterSet e useAppQueryParams f r = afterSet e useModelQueryParams f r"
  by (simp add: afterSet_def replace_def set_model set_app)

lemma afterSet_twice:
  assumes "routerQuery e (query r) = query r"
  shows "afterSet e useModelQueryParams f (afterSet e useModelQueryParams f r)
           = afterSet e useModelQueryParams f r"
proof -
  have "afterSet e useModelQueryParams f r
      = r\<lparr>query := routerQuery e (removeEmpty (emptyValue e) (Some (spread (query r) f)))\<rparr>"
    by (simp add: afterSet_def replace_def set_model)
  then show ?thesis
    using set_twice [OF assms, of "emptyValue e" f]
    by (simp add: afterSet_def replace_def set_model)
qed

section \<open>Facts about the slug characters\<close>

lemma of_char_lower_char:
  "of_char (lower_char c) =
     (let n = (of_char c :: nat) in if 65 \<le> n \<and> n \<le> 90 then n + 32 else n)"
  by (simp add: lower_char_def Let_def)

lemma lower_char_idem: "lower_char (lower_char c) = lower_char c"
  by (simp add: lower_char_def Let_def)

lemma is_slug_lower: "is_slug_char c \<Longrightarrow> is_slug_char (lower_char c)"
  by (auto simp: is_slug_char_def lower_char_def Let_def)

lemma slug_not_space: "is_slug_char c \<Longrightarrow> lower_char c \<noteq> CHR '' ''"
proof
  assume slug: "is_slug_char c" and "lower_char c = CHR '' ''"
  then have "(of_char (lower_char c) :: nat) = 32" by simp
  with slug show False
    by (auto simp: of_char_lower_char is_slug_char_def Let_def split: if_splits)
qed

lemma slug_idem: "postgresSlugify (postgresSlugify u) = postgresSlugify u"
  unfolding postgresSlugify_def
  by (induction u) (auto simp: lower_char_idem is_slug_lower slug_not_space)

section \<open>Facts about the fetch hooks\<close>

lemma flatMap_flattened:
  "concat (map (\<lambda>x. case x of Some p \<Rightarrow> items p | None \<Rightarrow> []) ps) = flattened ps"
  by (induction ps rule: flattened.induct) simp_all

lemma models_of_hooks:
  "query_hook.models (useQueryModels uiq f opts) =
     (case fst (uiq (useQueryModels_query f opts)) of None \<Rightarrow> [] | Some d \<Rightarrow> flattened (pages d))"
  "query_hook.models (useQueryApps uiq f opts) =
     (case fst (uiq (useQueryApps_query f opts)) of None \<Rightarrow> [] | Some d \<Rightarrow> flattened (pages d))"
  "query_hook.models (useQueryModelsOnly uiq f opts) =
     (case fst (uiq (useQueryModelsOnly_query f opts)) of None \<Rightarrow> []
      | Some d \<Rightarrow> flattened (pages d))"
  by (simp_all add: useQueryModels_def useQueryApps_def useQueryModelsOnly_def flatMap_flattened
      split: prod.splits option.splits)

lemma data_of_hooks:
  "query_hook.data (useQueryModels uiq f opts) = fst (uiq (useQueryModels_query f opts))"
  "query_hook.data (useQueryApps uiq f opts) = fst (uiq (useQueryApps_query f opts))"
  "query_hook.data (useQueryModelsOnly uiq f opts) = fst (uiq (useQueryModelsOnly_query f opts))"
  by (simp_all add: useQueryModels_def useQueryApps_def useQueryModelsOnly_def split: prod.splits)

lemma models_from_data:
  "query_hook.models (useQueryModels uiq f opts) =
     (case query_hook.data (useQueryModels uiq f opts) of None \<Rightarrow> []
      | Some d \<Rightarrow> flattened (pages d))"
  "query_hook.models (useQueryApps uiq f opts) =
     (case query_hook.data (useQueryApps uiq f opts) of None \<Rightarrow> []
      | Some d \<Rightarrow> flattened (pages d))"
  "query_hook.models (useQueryModelsOnly uiq f opts) =
     (case query_hook.data (useQueryModelsOnly uiq f opts) of None \<Rightarrow> []
      | Some d \<Rightarrow> flattened (pages d))"
  by (simp_all add: models_of_hooks data_of_hooks)

text \<open>
  With \<^verbatim>\<open>useInfiniteQuery\<close> a function that returns its argument as the other fields,
  the hook's \<open>rest\<close> is the query the hook handed over; and whatever
  \<^verbatim>\<open>useInfiniteQuery\<close> is, the hook returns what it gives for that query.
\<close>

lemma hook_hands_query:
  "rest (useQueryModels (\<lambda>q. (dat, q)) f opts) = useQueryModels_query f opts"
  "rest (useQueryApps (\<lambda>q. (dat, q)) f opts) = useQueryApps_query f opts"
  "rest (useQueryModelsOnly (\<lambda>q. (dat, q)) f opts) = useQueryModelsOnly_query f opts"
  by (simp_all add: useQueryModels_def useQueryApps_def useQueryModelsOnly_def)

lemma hook_returns:
  "(query_hook.data (useQueryModels uiq f opts), rest (useQueryModels uiq f opts))
     = uiq (useQueryModels_query f opts)"
  "(query_hook.data (useQueryApps uiq f opts), rest (useQueryApps uiq f opts))
     = uiq (useQueryApps_query f opts)"
  "(query_hook.data (useQueryModelsOnly uiq f opts), rest (useQueryModelsOnly uiq f opts))
     = uiq (useQueryModelsOnly_query f opts)"
  by (simp_all add: useQueryModels_def useQueryApps_def useQueryModelsOnly_def split: prod.splits)

lemma fetchNextPage_cases:
  "fetchNextPage q None = Some JUndefined"
  "pages d = [] \<Longrightarrow> fetchNextPage q (Some d) = Some JUndefined"
  "pages d \<noteq> [] \<Longrightarrow> fetchNextPage q (Some d) =
     (if getNextPageParam q (last (pages d)) = JUndefined then None
      else Some (getNextPageParam q (last (pages d))))"
  by (simp_all add: fetchNextPage_def Let_def split: list.splits)

lemma fetchPreviousPage_cases:
  "fetchPreviousPage q None = Some JUndefined"
  "pages d = [] \<Longrightarrow> fetchPreviousPage q (Some d) = Some JUndefined"
  "pages d \<noteq> [] \<Longrightarrow> fetchPreviousPage q (Some d) =
     (if getPreviousPageParam q (hd (pages d)) = JUndefined then None
      else Some (getPreviousPageParam q (hd (pages d))))"
  by (simp_all add: fetchPreviousPage_def Let_def split: list.splits)

lemma next_param:
  "getNextPageParam (useQueryModels_query f opts) x =
     (case x of Some p \<Rightarrow> nextCursor p | None \<Rightarrow> JNum 0)"
  "getNextPageParam (useQueryApps_query f opts) x =
     (case x of Some p \<Rightarrow> nextCursor p | None \<Rightarrow> JNum 0)"
  "getNextPageParam (useQueryModelsOnly_query f opts) x =
     (case x of Some p \<Rightarrow> nextCursor p | None \<Rightarrow> JNum 0)"
  by (simp_all add: useQueryModels_query_def useQueryApps_query_def useQueryModelsOnly_query_def)

lemma previous_param:
  "getPreviousPageParam (useQueryModels_query f opts) x =
     (case x of Some p \<Rightarrow> nextCursor p | None \<Rightarrow> JNum 0)"
  "getPreviousPageParam (useQueryApps_query f opts) x =
     (case x of Some p \<Rightarrow> nextCursor p | None \<Rightarrow> JNum 0)"
  "getPreviousPageParam (useQueryModelsOnly_query f opts) x =
     (case x of Some p \<Rightarrow> nextCursor p | None \<Rightarrow> JNum 0)"
  by (simp_all add: useQueryModels_query_def useQueryApps_query_def useQueryModelsOnly_query_def)

section \<open>The fetch hooks: flattening, cursors, default input\<close>

text \<open>
  Claim C2. In each of \<^verbatim>\<open>useQueryModels\<close>, \<^verbatim>\<open>useQueryApps\<close> and
  \<^verbatim>\<open>useQueryModelsOnly\<close> the returned \<^verbatim>\<open>models\<close> is the flattening of the loaded
  pages: the items of the pages one after the other in page order, each page's items in
  their order, nothing for a missing page; with no data at all it is the empty list.
\<close>

theorem models_flatten_pages:
  "query_hook.models (useQueryModels uiq f opts) =
     (case fst (uiq (useQueryModels_query f opts)) of None \<Rightarrow> [] | Some d \<Rightarrow> flattened (pages d)) \<and>
   query_hook.models (useQueryApps uiq f opts) =
     (case fst (uiq (useQueryApps_query f opts)) of None \<Rightarrow> [] | Some d \<Rightarrow> flattened (pages d)) \<and>
   query_hook.models (useQueryModelsOnly uiq f opts) =
     (case fst (uiq (useQueryModelsOnly_query f opts)) of None \<Rightarrow> []
      | Some d \<Rightarrow> flattened (pages d))"
  by (simp add: models_of_hooks)

text \<open>
  The pages \<^verbatim>\<open>[{items:[1,2]}, undefined, {items:[3]}]\<close> flatten to \<^verbatim>\<open>[1,2,3]\<close> in
  all three hooks, and no data gives no items.
\<close>

theorem models_flatten_pages_witness:
  "query_hook.models (useQueryModels
       (\<lambda>q. (Some \<lparr>pages = [Some \<lparr>items = [1, 2 :: int], nextCursor = JNum 2\<rparr>, None,
                             Some \<lparr>items = [3], nextCursor = JUndefined\<rparr>]\<rparr>, ())) None None)
     = [1, 2, 3] \<and>
   query_hook.models (useQueryApps
       (\<lambda>q. (Some \<lparr>pages = [Some \<lparr>items = [1, 2 :: int], nextCursor = JNum 2\<rparr>, None,
                             Some \<lparr>items = [3], nextCursor = JUndefined\<rparr>]\<rparr>, ())) None None)
     = [1, 2, 3] \<and>
   query_hook.models (useQueryModelsOnly
       (\<lambda>q. (Some \<lparr>pages = [Some \<lparr>items = [1, 2 :: int], nextCursor = JNum 2\<rparr>, None,
                             Some \<lparr>items = [3], nextCursor = JUndefined\<rparr>]\<rparr>, ())) None None)
     = [1, 2, 3] \<and>
   query_hook.models (useQueryModels (\<lambda>q. (None :: int infinite_data option, ())) None None) = []"
  using
    models_flatten_pages [of
      "\<lambda>q. (Some \<lparr>pages = [Some \<lparr>items = [1, 2 :: int], nextCursor = JNum 2\<rparr>, None,
                            Some \<lparr>items = [3], nextCursor = JUndefined\<rparr>]\<rparr>, ())" None None]
    models_flatten_pages [of "\<lambda>q. (None :: int infinite_data option, ())" None None]
  by simp

text \<open>
  Claim C3, as the code has it. In every fetch hook \<^verbatim>\<open>getNextPageParam\<close> returns the
  \<^verbatim>\<open>nextCursor\<close> of the last page when it is handed a page and the sentinel \<open>0\<close> when
  it is handed none; a last page with \<^verbatim>\<open>nextCursor = 5\<close> gives \<open>5\<close>. The hook hands
  this function to the query library, which asks it only when pages are loaded: the next
  request then carries the last page's \<^verbatim>\<open>nextCursor\<close> (and is not made when that is
  \<^verbatim>\<open>undefined\<close>), or \<open>0\<close> when the last entry of the pages is missing. With no
  page loaded the next request is the request for the first page and carries
  \<^verbatim>\<open>undefined\<close>.
\<close>

theorem next_page_cursor:
  assumes "q = useQueryModels_query f opts \<or> q = useQueryApps_query f opts \<or>
           q = useQueryModelsOnly_query f opts"
  shows "getNextPageParam q (Some p) = nextCursor p \<and>
         getNextPageParam q None = JNum 0 \<and>
         (nextCursor p = JNum 5 \<longrightarrow> getNextPageParam q (Some p) = JNum 5) \<and>
         (pages d \<noteq> [] \<and> last (pages d) = Some p \<and> nextCursor p \<noteq> JUndefined \<longrightarrow>
            fetchNextPage q (Some d) = Some (nextCursor p)) \<and>
         (pages d \<noteq> [] \<and> last (pages d) = Some p \<and> nextCursor p = JUndefined \<longrightarrow>
            fetchNextPage q (Some d) = None) \<and>
         (pages d \<noteq> [] \<and> last (pages d) = None \<longrightarrow> fetchNextPage q (Some d) = Some (JNum 0)) \<and>
         (pages d = [] \<longrightarrow> fetchNextPage q (Some d) = Some JUndefined) \<and>
         fetchNextPage q None = Some JUndefined \<and>
         rest (useQueryModels (\<lambda>q. (dat, q)) f opts) = useQueryModels_query f opts \<and>
         rest (useQueryApps (\<lambda>q. (dat, q)) f opts) = useQueryApps_query f opts \<and>
         rest (useQueryModelsOnly (\<lambda>q. (dat, q)) f opts) = useQueryModelsOnly_query f opts"
  using assms by (auto simp: next_param fetchNextPage_cases hook_hands_query)

text \<open>
  Against the claim as it was stated: with no data, and with an empty array of pages,
  no last page exists, and the cursor of the next request is \<^verbatim>\<open>undefined\<close>, not
  \<open>0\<close>.
\<close>

theorem next_page_cursor_no_pages:
  "fetchNextPage (useQueryModels_query None None) (None :: int infinite_data option)
     = Some JUndefined \<and>
   fetchNextPage (useQueryModels_query None None) (None :: int infinite_data option)
     \<noteq> Some (JNum 0) \<and>
   fetchNextPage (useQueryApps_query None None) (Some \<lparr>pages = ([] :: int page option list)\<rparr>)
     \<noteq> Some (JNum 0) \<and>
   fetchNextPage (useQueryModelsOnly_query None None) (None :: int infinite_data option)
     \<noteq> Some (JNum 0)"
  by (simp add: fetchNextPage_def)

theorem next_page_cursor_witness:
  "getNextPageParam (useQueryModels_query None None)
     (Some \<lparr>items = [1 :: int], nextCursor = JNum 5\<rparr>) = JNum 5 \<and>
   getNextPageParam (useQueryModels_query None None) (None :: int page option) = JNum 0 \<and>
   fetchNextPage (useQueryApps_query None None)
     (Some \<lparr>pages = [None, Some \<lparr>items = [1 :: int], nextCursor = JNum 5\<rparr>]\<rparr>) = Some (JNum 5) \<and>
   fetchNextPage (useQueryApps_query None None)
     (Some \<lparr>pages = [Some \<lparr>items = [1 :: int], nextCursor = JNum 5\<rparr>, None]\<rparr>) = Some (JNum 0) \<and>
   fetchNextPage (useQueryModelsOnly_query None None)
     (Some \<lparr>pages = [Some \<lparr>items = [1 :: int], nextCursor = JUndefined\<rparr>]\<rparr>) = None \<and>
   fetchNextPage (useQueryModelsOnly_query None None) (Some \<lparr>pages = ([] :: int page option list)\<rparr>)
     = Some JUndefined"
proof -
  let ?p = "\<lparr>items = [1 :: int], nextCursor = JNum 5\<rparr>"
  let ?u = "\<lparr>items = [1 :: int], nextCursor = JUndefined\<rparr>"
  let ?n = "None :: int infinite_data option"
  from next_page_cursor [of "useQueryModels_query None None" None None ?p "\<lparr>pages = []\<rparr>" ?n]
  have 1: "getNextPageParam (useQueryModels_query None None) (Some ?p) = JNum 5"
    and 2: "getNextPageParam (useQueryModels_query None None) (None :: int page option) = JNum 0"
    by simp_all
  from next_page_cursor [of "useQueryApps_query None None" None None ?p
      "\<lparr>pages = [None, Some ?p]\<rparr>" ?n]
  have 3: "fetchNextPage (useQueryApps_query None None) (Some \<lparr>pages = [None, Some ?p]\<rparr>)
             = Some (JNum 5)"
    by simp
  from next_page_cursor [of "useQueryApps_query None None" None None ?p
      "\<lparr>pages = [Some ?p, None]\<rparr>" ?n]
  have 4: "fetchNextPage (useQueryApps_query None None) (Some \<lparr>pages = [Some ?p, None]\<rparr>)
             = Some (JNum 0)"
    by simp
  from next_page_cursor [of "useQueryModelsOnly_query None None" None None ?u
      "\<lparr>pages = [Some ?u]\<rparr>" ?n]
  have 5: "fetchNextPage (useQueryModelsOnly_query None None) (Some \<lparr>pages = [Some ?u]\<rparr>) = None"
    by simp
  from next_page_cursor [of "useQueryModelsOnly_query None None" None None ?p "\<lparr>pages = []\<rparr>" ?n]
  have 6: "fetchNextPage (useQueryModelsOnly_query None None)
             (Some \<lparr>pages = ([] :: int page option list)\<rparr>) = Some JUndefined"
    by simp
  from 1 2 3 4 5 6 show ?thesis by simp
qed

text \<open>
  Claim C10, as the code has it. In every fetch hook the cursor of the previous-page
  request comes from the \<^verbatim>\<open>nextCursor\<close> field of the first loaded page, the field that
  forward pagination reads, and from no other: \<^verbatim>\<open>getPreviousPageParam\<close> and
  \<^verbatim>\<open>getNextPageParam\<close> are the same function, which returns \<open>0\<close> when it is handed
  no page. The hook hands it to the query library, which asks it only when pages are
  loaded: the previous-page request then carries the first page's \<^verbatim>\<open>nextCursor\<close> (and
  is not made when that is \<^verbatim>\<open>undefined\<close>), or \<open>0\<close> when the first entry of the pages
  is missing. With no page loaded the request is the request for the first page and
  carries \<^verbatim>\<open>undefined\<close>.
\<close>

theorem previous_page_cursor:
  assumes "q = useQueryModels_query f opts \<or> q = useQueryApps_query f opts \<or>
           q = useQueryModelsOnly_query f opts"
  shows "getPreviousPageParam q (Some p) = nextCursor p \<and>
         getPreviousPageParam q None = JNum 0 \<and>
         getPreviousPageParam q = getNextPageParam q \<and>
         (pages d \<noteq> [] \<and> hd (pages d) = Some p \<and> nextCursor p \<noteq> JUndefined \<longrightarrow>
            fetchPreviousPage q (Some d) = Some (nextCursor p)) \<and>
         (pages d \<noteq> [] \<and> hd (pages d) = Some p \<and> nextCursor p = JUndefined \<longrightarrow>
            fetchPreviousPage q (Some d) = None) \<and>
         (pages d \<noteq> [] \<and> hd (pages d) = None \<longrightarrow> fetchPreviousPage q (Some d) = Some (JNum 0)) \<and>
         (pages d = [] \<longrightarrow> fetchPreviousPage q (Some d) = Some JUndefined) \<and>
         fetchPreviousPage q None = Some JUndefined \<and>
         rest (useQueryModels (\<lambda>q. (dat, q)) f opts) = useQueryModels_query f opts \<and>
         rest (useQueryApps (\<lambda>q. (dat, q)) f opts) = useQueryApps_query f opts \<and>
         rest (useQueryModelsOnly (\<lambda>q. (dat, q)) f opts) = useQueryModelsOnly_query f opts"
  using assms by (auto simp: next_param previous_param fetchPreviousPage_cases hook_hands_query)

text \<open>
  Against the claim as it was stated: with no data, and with an empty array of pages,
  no first page exists, and the cursor of the previous-page request is
  \<^verbatim>\<open>undefined\<close>, not \<open>0\<close>.
\<close>

theorem previous_page_cursor_no_pages:
  "fetchPreviousPage (useQueryModels_query None None) (None :: int infinite_data option)
     = Some JUndefined \<and>
   fetchPreviousPage (useQueryModels_query None None) (None :: int infinite_data option)
     \<noteq> Some (JNum 0) \<and>
   fetchPreviousPage (useQueryApps_query None None) (Some \<lparr>pages = ([] :: int page option list)\<rparr>)
     \<noteq> Some (JNum 0) \<and>
   fetchPreviousPage (useQueryModelsOnly_query None None) (None :: int infinite_data option)
     \<noteq> Some (JNum 0)"
  by (simp add: fetchPreviousPage_def)

theorem previous_page_cursor_witness:
  "getPreviousPageParam (useQueryModels_query None None)
     (Some \<lparr>items = [1 :: int], nextCursor = JNum 7\<rparr>) = JNum 7 \<and>
   getPreviousPageParam (useQueryModels_query None None) (None :: int page option) = JNum 0 \<and>
   fetchPreviousPage (useQueryApps_query None None)
     (Some \<lparr>pages = [Some \<lparr>items = [1 :: int], nextCursor = JNum 7\<rparr>, None]\<rparr>) = Some (JNum 7) \<and>
   fetchPreviousPage (useQueryApps_query None None)
     (Some \<lparr>pages = [None, Some \<lparr>items = [1 :: int], nextCursor = JNum 7\<rparr>]\<rparr>) = Some (JNum 0) \<and>
   fetchPreviousPage (useQueryModelsOnly_query None None)
     (Some \<lparr>pages = [Some \<lparr>items = [1 :: int], nextCursor = JUndefined\<rparr>]\<rparr>) = None \<and>
   fetchPreviousPage (useQueryModelsOnly_query None None)
     (Some \<lparr>pages = ([] :: int page option list)\<rparr>) = Some JUndefined"
proof -
  let ?p = "\<lparr>items = [1 :: int], nextCursor = JNum 7\<rparr>"
  let ?u = "\<lparr>items = [1 :: int], nextCursor = JUndefined\<rparr>"
  let ?n = "None :: int infinite_data option"
  from previous_page_cursor [of "useQueryModels_query None None" None None ?p "\<lparr>pages = []\<rparr>" ?n]
  have 1: "getPreviousPageParam (useQueryModels_query None None) (Some ?p) = JNum 7"
    and 2: "getPreviousPageParam (useQueryModels_query None None) (None :: int page option) = JNum 0"
    by (simp_all add: next_param)
  from previous_page_cursor [of "useQueryApps_query None None" None None ?p
      "\<lparr>pages = [Some ?p, None]\<rparr>" ?n]
  have 3: "fetchPreviousPage (useQueryApps_query None None) (Some \<lparr>pages = [Some ?p, None]\<rparr>)
             = Some (JNum 7)"
    by simp
  from previous_page_cursor [of "useQueryApps_query None None" None None ?p
      "\<lparr>pages = [None, Some ?p]\<rparr>" ?n]
  have 4: "fetchPreviousPage (useQueryApps_query None None) (Some \<lparr>pages = [None, Some ?p]\<rparr>)
             = Some (JNum 0)"
    by simp
  from previous_page_cursor [of "useQueryModelsOnly_query None None" None None ?u
      "\<lparr>pages = [Some ?u]\<rparr>" ?n]
  have 5: "fetchPreviousPage (useQueryModelsOnly_query None None) (Some \<lparr>pages = [Some ?u]\<rparr>)
             = None"
    by simp
  from previous_page_cursor [of "useQueryModelsOnly_query None None" None None ?p
      "\<lparr>pages = []\<rparr>" ?n]
  have 6: "fetchPreviousPage (useQueryModelsOnly_query None None)
             (Some \<lparr>pages = ([] :: int page option list)\<rparr>) = Some JUndefined"
    by simp
  from 1 2 3 4 5 6 show ?thesis by simp
qed

text \<open>
  Claim C8. A fetch hook called without \<^verbatim>\<open>filters\<close> hands \<^verbatim>\<open>useInfiniteQuery\<close> of
  its procedure a query whose input is the empty object: seen with a
  \<^verbatim>\<open>useInfiniteQuery\<close> that returns its argument, and, for every
  \<^verbatim>\<open>useInfiniteQuery\<close>, in that the hook's data and other fields are what it gives on
  a query with empty input. The hook returns what it returns for \<^verbatim>\<open>{}\<close>.
\<close>

theorem missing_filters_default_empty:
  "input (rest (useQueryModels (\<lambda>q. (dat, q)) None opts)) = Map.empty \<and>
   input (rest (useQueryApps (\<lambda>q. (dat, q)) None opts)) = Map.empty \<and>
   input (rest (useQueryModelsOnly (\<lambda>q. (dat, q)) None opts)) = Map.empty \<and>
   procedure (rest (useQueryModels (\<lambda>q. (dat, q)) None opts)) = GetAll \<and>
   procedure (rest (useQueryApps (\<lambda>q. (dat, q)) None opts)) = GetAllAppsOnly \<and>
   procedure (rest (useQueryModelsOnly (\<lambda>q. (dat, q)) None opts)) = GetAllModelsOnly \<and>
   (\<exists>q. input q = Map.empty \<and> procedure q = GetAll \<and>
        (query_hook.data (useQueryModels uiq None opts), rest (useQueryModels uiq None opts)) = uiq q) \<and>
   (\<exists>q. input q = Map.empty \<and> procedure q = GetAllAppsOnly \<and>
        (query_hook.data (useQueryApps uiq None opts), rest (useQueryApps uiq None opts)) = uiq q) \<and>
   (\<exists>q. input q = Map.empty \<and> procedure q = GetAllModelsOnly \<and>
        (query_hook.data (useQueryModelsOnly uiq None opts), rest (useQueryModelsOnly uiq None opts))
          = uiq q) \<and>
   input (useQueryModels_query None opts :: 'a infinite_query) = Map.empty \<and>
   input (useQueryApps_query None opts :: 'a infinite_query) = Map.empty \<and>
   input (useQueryModelsOnly_query None opts :: 'a infinite_query) = Map.empty \<and>
   useQueryModels uiq None opts = useQueryModels uiq (Some Map.empty) opts \<and>
   useQueryApps uiq None opts = useQueryApps uiq (Some Map.empty) opts \<and>
   useQueryModelsOnly uiq None opts = useQueryModelsOnly uiq (Some Map.empty) opts"
proof -
  have 1: "\<exists>q. input q = Map.empty \<and> procedure q = GetAll \<and>
        (query_hook.data (useQueryModels uiq None opts), rest (useQueryModels uiq None opts)) = uiq q"
    by (rule exI [of _ "useQueryModels_query None opts"])
       (simp add: hook_returns, simp add: useQueryModels_query_def)
  have 2: "\<exists>q. input q = Map.empty \<and> procedure q = GetAllAppsOnly \<and>
        (query_hook.data (useQueryApps uiq None opts), rest (useQueryApps uiq None opts)) = uiq q"
    by (rule exI [of _ "useQueryApps_query None opts"])
       (simp add: hook_returns, simp add: useQueryApps_query_def)
  have 3: "\<exists>q. input q = Map.empty \<and> procedure q = GetAllModelsOnly \<and>
        (query_hook.data (useQueryModelsOnly uiq None opts), rest (useQueryModelsOnly uiq None opts))
          = uiq q"
    by (rule exI [of _ "useQueryModelsOnly_query None opts"])
       (simp add: hook_returns, simp add: useQueryModelsOnly_query_def)
  have 4: "useQueryModels uiq None opts = useQueryModels uiq (Some Map.empty) opts"
    "useQueryApps uiq None opts = useQueryApps uiq (Some Map.empty) opts"
    "useQueryModelsOnly uiq None opts = useQueryModelsOnly uiq (Some Map.empty) opts"
    by (simp_all add: useQueryModels_query_def useQueryApps_query_def useQueryModelsOnly_query_def
      useQueryModels_def useQueryApps_def useQueryModelsOnly_def)
  from 1 2 3 4 show ?thesis
    by (simp add: hook_hands_query useQueryModels_query_def useQueryApps_query_def
        useQueryModelsOnly_query_def)
qed

text \<open>
  With a \<^verbatim>\<open>useInfiniteQuery\<close> that returns its argument the input is seen to be
  empty, with and without options. With one that answers with a page holding the number
  of keys of the input it was given, \<^verbatim>\<open>useQueryModels\<close> called without filters
  returns the number \<open>0\<close>.
\<close>

theorem missing_filters_default_empty_witness:
  "input (rest (useQueryModels (\<lambda>q. (None :: int infinite_data option, q)) None
      (Some \<lparr>keepPreviousData = Some True, enabled = None\<rparr>))) = Map.empty \<and>
   input (rest (useQueryApps (\<lambda>q. (None :: int infinite_data option, q)) None None)) ''sort'' = None \<and>
   procedure (rest (useQueryModelsOnly (\<lambda>q. (None :: int infinite_data option, q)) None None))
     = GetAllModelsOnly \<and>
   query_hook.models (useQueryModels
      (\<lambda>q. (Some \<lparr>pages = [Some \<lparr>items = [card (dom (input q))], nextCursor = JUndefined\<rparr>]\<rparr>, ()))
      None None) = [0]"
proof -
  let ?uiq = "\<lambda>q :: nat infinite_query.
     (Some \<lparr>pages = [Some \<lparr>items = [card (dom (input q))], nextCursor = JUndefined\<rparr>]\<rparr>, ())"
  let ?n = "None :: int infinite_data option"
  note a = missing_filters_default_empty
    [where dat = ?n and opts = "Some \<lparr>keepPreviousData = Some True, enabled = None\<rparr>"
       and uiq = ?uiq]
  note b = missing_filters_default_empty [where dat = ?n and opts = None and uiq = ?uiq]
  have 1: "input (rest (useQueryModels (\<lambda>q. (?n, q)) None
      (Some \<lparr>keepPreviousData = Some True, enabled = None\<rparr>))) = Map.empty"
    using a by (elim conjE)
  have 2: "input (rest (useQueryApps (\<lambda>q. (?n, q)) None None)) = Map.empty"
    using b by (elim conjE)
  have 3: "procedure (rest (useQueryModelsOnly (\<lambda>q. (?n, q)) None None)) = GetAllModelsOnly"
    using b by (elim conjE)
  have 4: "\<exists>q. input q = Map.empty \<and> procedure q = GetAll \<and>
        (query_hook.data (useQueryModels ?uiq None None), rest (useQueryModels ?uiq None None)) = ?uiq q"
    using b by (elim conjE)
  then have "query_hook.data (useQueryModels ?uiq None None)
                 = Some \<lparr>pages = [Some \<lparr>items = [0], nextCursor = JUndefined\<rparr>]\<rparr>"
    by auto
  then have 5: "query_hook.models (useQueryModels ?uiq None None) = [0]"
    by (simp add: models_from_data)
  from 1 2 3 5 show ?thesis by simp
qed

section \<open>The query-parameter codec\<close>

text \<open>
  Claim C1. When the schema parse of the raw query fails, which is when some field of
  the schema fails on the query's value for it, the fields that
  \<^verbatim>\<open>useModelQueryParams\<close> and \<^verbatim>\<open>useAppQueryParams\<close> return are exactly
  \<^verbatim>\<open>{ view: "categories" }\<close>: nothing of the raw query is kept, whether or not it
  validated. (The hook's value holds the closure \<^verbatim>\<open>set\<close> beside these fields.)
\<close>

theorem parse_failure_falls_back:
  "(safeParse (modelQueryParamSchema e) (query r) = None \<longleftrightarrow>
      (\<exists>(k, s) \<in> set (modelQueryParamSchema e). s (jsget (query r) k) = None)) \<and>
   (safeParse (modelQueryParamSchema e) (query r) = None \<longrightarrow>
      query_params.data (useModelQueryParams e r) = [''view'' \<mapsto> JStr ''categories'']) \<and>
   (safeParse (appQueryParamSchema e) (query r) = None \<longleftrightarrow>
      (\<exists>(k, s) \<in> set (appQueryParamSchema e). s (jsget (query r) k) = None)) \<and>
   (safeParse (appQueryParamSchema e) (query r) = None \<longrightarrow>
      query_params.data (useAppQueryParams e r) = [''view'' \<mapsto> JStr ''categories''])"
  using safeParse_None_iff [of "modelQueryParamSchema e" "query r"]
    safeParse_None_iff [of "appQueryParamSchema e" "query r"]
    data_model_failure [of e r] data_app_failure [of e r]
  by (simp add: defaultData_def)

text \<open>
  The query \<^verbatim>\<open>?sort=bogus&query=cats\<close>: \<^verbatim>\<open>sort\<close> is in neither enumeration, the
  valid \<^verbatim>\<open>query\<close> is lost with it.
\<close>

theorem parse_failure_falls_back_witness:
  "safeParse (modelQueryParamSchema sampleEnv)
       [''sort'' \<mapsto> JStr ''bogus'', ''query'' \<mapsto> JStr ''cats''] = None \<and>
   query_params.data (useModelQueryParams sampleEnv
       \<lparr>query = [''sort'' \<mapsto> JStr ''bogus'', ''query'' \<mapsto> JStr ''cats''], pathname = ''/models''\<rparr>)
     = [''view'' \<mapsto> JStr ''categories''] \<and>
   query_params.data (useModelQueryParams sampleEnv
       \<lparr>query = [''sort'' \<mapsto> JStr ''bogus'', ''query'' \<mapsto> JStr ''cats''], pathname = ''/models''\<rparr>)
     ''query'' = None \<and>
   safeParse (appQueryParamSchema sampleEnv)
       [''sort'' \<mapsto> JStr ''bogus'', ''query'' \<mapsto> JStr ''cats''] = None \<and>
   query_params.data (useAppQueryParams sampleEnv
       \<lparr>query = [''sort'' \<mapsto> JStr ''bogus'', ''query'' \<mapsto> JStr ''cats''], pathname = ''/models''\<rparr>)
     = [''view'' \<mapsto> JStr ''categories'']"
proof -
  let ?q = "[''sort'' \<mapsto> JStr ''bogus'', ''query'' \<mapsto> JStr ''cats'']"
  let ?r = "\<lparr>query = ?q, pathname = ''/models''\<rparr>"
  have model: "safeParse (modelQueryParamSchema sampleEnv) (query ?r) = None"
    by (rule safeParse_fails
          [where k = "''sort''" and s = "z_optional (z_nativeEnum (ModelSort sampleEnv))"])
       (simp_all add: modelQueryParamSchema_def modelQueryParamShape_def z_partial_def
          sampleEnv_def jsget_def z_optional_def z_nativeEnum_def)
  have app: "safeParse (appQueryParamSchema sampleEnv) (query ?r) = None"
    unfolding app_schema_eq
    by (rule safeParse_fails
          [where k = "''sort''" and s = "z_optional (z_nativeEnum (AppSort sampleEnv))"])
       (simp_all add: modelQueryParamSchema_def modelQueryParamShape_def z_partial_def
          sampleEnv_def jsget_def z_optional_def z_nativeEnum_def)
  from parse_failure_falls_back [of sampleEnv ?r] model app show ?thesis
    by simp
qed

text \<open>
  Claim C4. For a value supplied for \<^verbatim>\<open>favorites\<close> or \<^verbatim>\<open>hidden\<close> (the key is in the
  query with a value other than \<^verbatim>\<open>undefined\<close>; the fields are optional, and
  \<^verbatim>\<open>undefined\<close> is a field left out), the field's schema in both codecs never fails,
  gives the boolean \<^verbatim>\<open>true\<close> for \<^verbatim>\<open>true\<close> and for \<^verbatim>\<open>"true"\<close> and
  \<^verbatim>\<open>false\<close> for every other value, and that boolean is what the hook returns for the
  field when the query parses.
\<close>

theorem boolean_fields_normalised:
  assumes k: "k = ''favorites'' \<or> k = ''hidden''"
    and q: "query r k = Some v"
    and v: "v \<noteq> JUndefined"
  shows "(\<exists>s. map_of (modelQueryParamSchema e) k = Some s \<and>
              s v = Some (JBool (v = JBool True \<or> v = JStr ''true''))) \<and>
         (\<exists>s. map_of (appQueryParamSchema e) k = Some s \<and>
              s v = Some (JBool (v = JBool True \<or> v = JStr ''true''))) \<and>
         (safeParse (modelQueryParamSchema e) (query r) \<noteq> None \<longrightarrow>
            query_params.data (useModelQueryParams e r) k =
              Some (JBool (v = JBool True \<or> v = JStr ''true''))) \<and>
         (safeParse (appQueryParamSchema e) (query r) \<noteq> None \<longrightarrow>
            query_params.data (useAppQueryParams e r) k =
              Some (JBool (v = JBool True \<or> v = JStr ''true'')))"
proof (intro conjI impI)
  show "\<exists>s. map_of (modelQueryParamSchema e) k = Some s \<and>
              s v = Some (JBool (v = JBool True \<or> v = JStr ''true''))"
    using map_of_bool_fields [OF k] bool_field [OF v] by simp
  show "\<exists>s. map_of (appQueryParamSchema e) k = Some s \<and>
              s v = Some (JBool (v = JBool True \<or> v = JStr ''true''))"
    using map_of_bool_fields [OF k] bool_field [OF v] by (simp add: app_schema_eq)
  show "query_params.data (useModelQueryParams e r) k =
          Some (JBool (v = JBool True \<or> v = JStr ''true''))"
    if "safeParse (modelQueryParamSchema e) (query r) \<noteq> None"
    using model_bool_end_to_end [OF k q v that] .
  show "query_params.data (useAppQueryParams e r) k =
          Some (JBool (v = JBool True \<or> v = JStr ''true''))"
    if ok: "safeParse (appQueryParamSchema e) (query r) \<noteq> None"
  proof -
    let ?e = "e\<lparr>ModelSort := AppSort e\<rparr>"
    from ok have "safeParse (modelQueryParamSchema ?e) (query r) \<noteq> None"
      by (simp add: app_schema_eq)
    then show ?thesis
      using model_bool_end_to_end [OF k q v, of ?e] by (simp add: app_hook_eq)
  qed
qed

text \<open>
  The query \<^verbatim>\<open>?favorites=true&hidden=yes&utm=x\<close> parses; \<^verbatim>\<open>favorites\<close> comes out
  \<^verbatim>\<open>true\<close>, \<^verbatim>\<open>hidden\<close> comes out \<^verbatim>\<open>false\<close>.
\<close>

theorem boolean_fields_normalised_witness:
  "query_params.data (useModelQueryParams sampleEnv
     \<lparr>query = [''favorites'' \<mapsto> JStr ''true'', ''hidden'' \<mapsto> JStr ''yes'', ''utm'' \<mapsto> JStr ''x''],
      pathname = ''/models''\<rparr>) ''favorites'' = Some (JBool True) \<and>
   query_params.data (useModelQueryParams sampleEnv
     \<lparr>query = [''favorites'' \<mapsto> JStr ''true'', ''hidden'' \<mapsto> JStr ''yes'', ''utm'' \<mapsto> JStr ''x''],
      pathname = ''/models''\<rparr>) ''hidden'' = Some (JBool False) \<and>
   query_params.data (useAppQueryParams sampleEnv
     \<lparr>query = [''favorites'' \<mapsto> JStr ''true'', ''hidden'' \<mapsto> JStr ''yes'', ''utm'' \<mapsto> JStr ''x''],
      pathname = ''/models''\<rparr>) ''favorites'' = Some (JBool True) \<and>
   query_params.data (useAppQueryParams sampleEnv
     \<lparr>query = [''favorites'' \<mapsto> JStr ''true'', ''hidden'' \<mapsto> JStr ''yes'', ''utm'' \<mapsto> JStr ''x''],
      pathname = ''/models''\<rparr>) ''hidden'' = Some (JBool False)"
proof -
  let ?r = "\<lparr>query = [''favorites'' \<mapsto> JStr ''true'', ''hidden'' \<mapsto> JStr ''yes'',
                        ''utm'' \<mapsto> JStr ''x''], pathname = ''/models''\<rparr>"
  have ok: "safeParse (modelQueryParamSchema sampleEnv) (query ?r) \<noteq> None"
    by (simp add: modelQueryParamSchema_def modelQueryParamShape_def z_partial_def sampleEnv_def
        jsget_def z_optional_def z_preprocess_def isTrue_def z_boolean_def)
  have ok': "safeParse (appQueryParamSchema sampleEnv) (query ?r) \<noteq> None"
    unfolding app_schema_eq
    by (simp add: modelQueryParamSchema_def modelQueryParamShape_def z_partial_def sampleEnv_def
        jsget_def z_optional_def z_preprocess_def isTrue_def z_boolean_def)
  have f: "query ?r ''favorites'' = Some (JStr ''true'')"
    and h: "query ?r ''hidden'' = Some (JStr ''yes'')"
    by simp_all
  from boolean_fields_normalised [of "''favorites''" ?r "JStr ''true''" sampleEnv]
    boolean_fields_normalised [of "''hidden''" ?r "JStr ''yes''" sampleEnv] ok ok' f h
  show ?thesis by simp
qed

text \<open>
  Claim C5. On a router whose query was read from an address, \<^verbatim>\<open>set\<close> of either codec
  replaces the query by the merge of the update over the current query without its empty
  fields: \<^verbatim>\<open>set\<close> hands \<^verbatim>\<open>replace\<close> the merge (a key of the update takes the
  update's value, any other key keeps the query's, and a key whose value is empty is
  dropped) with the same path and shallowly, and the router's query is then that object as
  the address holds it, on the same path. Setting the same update again, on the router
  that the first call left, changes nothing.
\<close>

theorem set_params_merge_idempotent:
  assumes url: "routerQuery e (query r) = query r"
  shows
   "url_query (set_params (useModelQueryParams e r) f) k =
      (case f k of
         Some v \<Rightarrow> if emptyValue e v then None else Some v
       | None \<Rightarrow> (case query r k of
                    Some v \<Rightarrow> if emptyValue e v then None else Some v
                  | None \<Rightarrow> None)) \<and>
    url_pathname (set_params (useModelQueryParams e r) f) = pathname r \<and>
    shallow (set_params (useModelQueryParams e r) f) \<and>
    set_params (useAppQueryParams e r) = set_params (useModelQueryParams e r) \<and>
    query (afterSet e useModelQueryParams f r) k =
      (case f k of
         Some v \<Rightarrow> if emptyValue e v then None else urlQueryValue e v
       | None \<Rightarrow> (case query r k of
                    Some v \<Rightarrow> if emptyValue e v then None else Some v
                  | None \<Rightarrow> None)) \<and>
    pathname (afterSet e useModelQueryParams f r) = pathname r \<and>
    afterSet e useAppQueryParams f r = afterSet e useModelQueryParams f r \<and>
    afterSet e useModelQueryParams f (afterSet e useModelQueryParams f r)
      = afterSet e useModelQueryParams f r \<and>
    afterSet e useAppQueryParams f (afterSet e useAppQueryParams f r)
      = afterSet e useAppQueryParams f r"
proof -
  have fixed: "urlQueryValue e v = Some v" if "query r k = Some v" for v
  proof -
    from url have "routerQuery e (query r) k = query r k" by simp
    with that show ?thesis by (simp add: routerQuery_apply)
  qed
  have 1: "url_query (set_params (useModelQueryParams e r) f) k =
      (case f k of
         Some v \<Rightarrow> if emptyValue e v then None else Some v
       | None \<Rightarrow> (case query r k of
                    Some v \<Rightarrow> if emptyValue e v then None else Some v
                  | None \<Rightarrow> None))"
    by (simp add: set_model removeEmpty_apply spread_def map_add_def split: option.splits)
  have 2: "query (afterSet e useModelQueryParams f r) k =
      (case f k of
         Some v \<Rightarrow> if emptyValue e v then None else urlQueryValue e v
       | None \<Rightarrow> (case query r k of
                    Some v \<Rightarrow> if emptyValue e v then None else Some v
                  | None \<Rightarrow> None))"
    using fixed
    by (simp add: afterSet_query routerQuery_apply removeEmpty_apply spread_def map_add_def
        split: option.splits)
  have 3: "set_params (useAppQueryParams e r) = set_params (useModelQueryParams e r)"
    by (simp add: useAppQueryParams_def useModelQueryParams_def Let_def)
  from 1 2 3 afterSet_twice [OF url, of f] show ?thesis
    by (simp add: set_model afterSet_query afterSet_app)
qed

text \<open>
  On \<^verbatim>\<open>?sort=Newest&tag=pony\<close> the update
  \<^verbatim>\<open>{ tag: undefined, view: "feed", favorites: true }\<close> drops \<^verbatim>\<open>tag\<close>, adds
  \<^verbatim>\<open>view=feed\<close> and \<^verbatim>\<open>favorites=true\<close> and keeps \<^verbatim>\<open>sort\<close>; the same update
  once more leaves the router as it is.
\<close>

theorem set_params_merge_idempotent_witness:
  "query (afterSet sampleEnv useModelQueryParams
        [''tag'' \<mapsto> JUndefined, ''view'' \<mapsto> JStr ''feed'', ''favorites'' \<mapsto> JBool True]
        \<lparr>query = [''sort'' \<mapsto> JStr ''Newest'', ''tag'' \<mapsto> JStr ''pony''], pathname = ''/models''\<rparr>)
      ''tag'' = None \<and>
   query (afterSet sampleEnv useModelQueryParams
        [''tag'' \<mapsto> JUndefined, ''view'' \<mapsto> JStr ''feed'', ''favorites'' \<mapsto> JBool True]
        \<lparr>query = [''sort'' \<mapsto> JStr ''Newest'', ''tag'' \<mapsto> JStr ''pony''], pathname = ''/models''\<rparr>)
      ''view'' = Some (JStr ''feed'') \<and>
   query (afterSet sampleEnv useModelQueryParams
        [''tag'' \<mapsto> JUndefined, ''view'' \<mapsto> JStr ''feed'', ''favorites'' \<mapsto> JBool True]
        \<lparr>query = [''sort'' \<mapsto> JStr ''Newest'', ''tag'' \<mapsto> JStr ''pony''], pathname = ''/models''\<rparr>)
      ''favorites'' = Some (JStr ''true'') \<and>
   query (afterSet sampleEnv useModelQueryParams
        [''tag'' \<mapsto> JUndefined, ''view'' \<mapsto> JStr ''feed'', ''favorites'' \<mapsto> JBool True]
        \<lparr>query = [''sort'' \<mapsto> JStr ''Newest'', ''tag'' \<mapsto> JStr ''pony''], pathname = ''/models''\<rparr>)
      ''sort'' = Some (JStr ''Newest'') \<and>
   afterSet sampleEnv useModelQueryParams
        [''tag'' \<mapsto> JUndefined, ''view'' \<mapsto> JStr ''feed'', ''favorites'' \<mapsto> JBool True]
     (afterSet sampleEnv useModelQueryParams
        [''tag'' \<mapsto> JUndefined, ''view'' \<mapsto> JStr ''feed'', ''favorites'' \<mapsto> JBool True]
        \<lparr>query = [''sort'' \<mapsto> JStr ''Newest'', ''tag'' \<mapsto> JStr ''pony''], pathname = ''/models''\<rparr>)
   = afterSet sampleEnv useModelQueryParams
        [''tag'' \<mapsto> JUndefined, ''view'' \<mapsto> JStr ''feed'', ''favorites'' \<mapsto> JBool True]
        \<lparr>query = [''sort'' \<mapsto> JStr ''Newest'', ''tag'' \<mapsto> JStr ''pony''], pathname = ''/models''\<rparr>"
proof -
  let ?r = "\<lparr>query = [''sort'' \<mapsto> JStr ''Newest'', ''tag'' \<mapsto> JStr ''pony''],
             pathname = ''/models''\<rparr>"
  let ?f = "[''tag'' \<mapsto> JUndefined, ''view'' \<mapsto> JStr ''feed'', ''favorites'' \<mapsto> JBool True]"
  have url: "routerQuery sampleEnv (query ?r) = query ?r"
    by (rule ext) (simp add: routerQuery_def urlQueryValue_def stringifyUrlQueryParam_def)
  from set_params_merge_idempotent [OF url, of ?f "''tag''"]
    set_params_merge_idempotent [OF url, of ?f "''view''"]
    set_params_merge_idempotent [OF url, of ?f "''favorites''"]
    set_params_merge_idempotent [OF url, of ?f "''sort''"]
  show ?thesis
    by (simp add: emptyValue_def urlQueryValue_def stringifyUrlQueryParam_def)
qed

text \<open>
  Claim C6. The app codec is the model codec with the \<^verbatim>\<open>AppSort\<close> enumeration in the
  place of \<^verbatim>\<open>ModelSort\<close>: same parsed fields, same fallback, same \<^verbatim>\<open>set\<close>. So the
  two codecs return the same on every query whose \<^verbatim>\<open>sort\<close> both enumerations treat
  alike.
\<close>

theorem app_codec_is_model_codec_with_AppSort:
  "useAppQueryParams e r = useModelQueryParams (e\<lparr>ModelSort := AppSort e\<rparr>) r \<and>
   (z_nativeEnum (AppSort e) (jsget (query r) ''sort'') =
      z_nativeEnum (ModelSort e) (jsget (query r) ''sort'')
      \<longrightarrow> useAppQueryParams e r = useModelQueryParams e r)"
proof (intro conjI impI)
  show "useAppQueryParams e r = useModelQueryParams (e\<lparr>ModelSort := AppSort e\<rparr>) r"
    by (rule app_hook_eq)
  assume "z_nativeEnum (AppSort e) (jsget (query r) ''sort'') =
          z_nativeEnum (ModelSort e) (jsget (query r) ''sort'')"
  then have "safeParse (appQueryParamSchema e) (query r) =
             safeParse (modelQueryParamSchema e) (query r)"
    unfolding app_schema_eq
    by (intro safeParse_cong)
       (simp add: modelQueryParamSchema_def modelQueryParamShape_def z_partial_def
          usernameField_ModelSort z_optional_def)
  then show "useAppQueryParams e r = useModelQueryParams e r"
    by (simp add: useAppQueryParams_def useModelQueryParams_def)
qed

text \<open>
  \<^verbatim>\<open>?sort=Most Used\<close> is a sort of apps only: the app codec returns it, the model
  codec falls back. \<^verbatim>\<open>?sort=Newest\<close> is in both enumerations: the codecs agree.
\<close>

theorem app_codec_is_model_codec_with_AppSort_witness:
  "query_params.data (useAppQueryParams sampleEnv
      \<lparr>query = [''sort'' \<mapsto> JStr ''Most Used''], pathname = ''/apps''\<rparr>) ''sort''
     = Some (JStr ''Most Used'') \<and>
   query_params.data (useModelQueryParams sampleEnv
      \<lparr>query = [''sort'' \<mapsto> JStr ''Most Used''], pathname = ''/apps''\<rparr>)
     = [''view'' \<mapsto> JStr ''categories''] \<and>
   useAppQueryParams sampleEnv \<lparr>query = [''sort'' \<mapsto> JStr ''Newest''], pathname = ''/apps''\<rparr> =
     useModelQueryParams sampleEnv \<lparr>query = [''sort'' \<mapsto> JStr ''Newest''], pathname = ''/apps''\<rparr>"
proof -
  let ?r = "\<lparr>query = [''sort'' \<mapsto> JStr ''Most Used''], pathname = ''/apps''\<rparr>"
  let ?r' = "\<lparr>query = [''sort'' \<mapsto> JStr ''Newest''], pathname = ''/apps''\<rparr>"
  have bad: "safeParse (modelQueryParamSchema sampleEnv) (query ?r) = None"
    by (rule safeParse_fails
          [where k = "''sort''" and s = "z_optional (z_nativeEnum (ModelSort sampleEnv))"])
       (simp_all add: modelQueryParamSchema_def modelQueryParamShape_def z_partial_def
          sampleEnv_def jsget_def z_optional_def z_nativeEnum_def)
  have good: "query_params.data
      (useModelQueryParams (sampleEnv\<lparr>ModelSort := AppSort sampleEnv\<rparr>) ?r) ''sort''
      = Some (JStr ''Most Used'')"
    by (simp add: useModelQueryParams_def modelQueryParamSchema_def modelQueryParamShape_def
        z_partial_def sampleEnv_def jsget_def z_optional_def z_nativeEnum_def)
  have same: "z_nativeEnum (AppSort sampleEnv) (jsget (query ?r') ''sort'') =
              z_nativeEnum (ModelSort sampleEnv) (jsget (query ?r') ''sort'')"
    by (simp add: sampleEnv_def jsget_def z_nativeEnum_def)
  from app_codec_is_model_codec_with_AppSort [of sampleEnv ?r] good
  have 1: "query_params.data (useAppQueryParams sampleEnv ?r) ''sort'' = Some (JStr ''Most Used'')"
    by simp
  from app_codec_is_model_codec_with_AppSort [of sampleEnv ?r'] same
  have 2: "useAppQueryParams sampleEnv ?r' = useModelQueryParams sampleEnv ?r'"
    by blast
  from 1 2 data_model_failure [OF bad] show ?thesis
    by (simp add: defaultData_def)
qed

section \<open>The filter state readers\<close>

text \<open>
  Claim C7. \<^verbatim>\<open>useModelFilters\<close> and \<^verbatim>\<open>useAppFilters\<close> return their slice of the
  store without its empty-valued fields: the result is part of the slice, and a field of
  the slice is in the result exactly when its value is not empty. They always return: an
  absent slice and an empty slice both give the empty result. \<^verbatim>\<open>undefined\<close> and
  \<^verbatim>\<open>""\<close> are empty and \<^verbatim>\<open>"x"\<close> is not, so
  \<^verbatim>\<open>{a: undefined, b: "", c: "x"}\<close> reduces to \<^verbatim>\<open>{c: "x"}\<close>, however
  \<^verbatim>\<open>null\<close>, \<^verbatim>\<open>0\<close> and the empty containers are treated.
\<close>

theorem filters_remove_empty:
  "(filters_state.models st = Some obj \<longrightarrow>
      useModelFilters e st \<subseteq>\<^sub>m obj \<and>
      (\<forall>k v. obj k = Some v \<longrightarrow> (useModelFilters e st k = Some v \<longleftrightarrow> \<not> emptyValue e v))) \<and>
   (apps st = Some obj \<longrightarrow>
      useAppFilters e st \<subseteq>\<^sub>m obj \<and>
      (\<forall>k v. obj k = Some v \<longrightarrow> (useAppFilters e st k = Some v \<longleftrightarrow> \<not> emptyValue e v))) \<and>
   (filters_state.models st = None \<longrightarrow> useModelFilters e st = Map.empty) \<and>
   (apps st = None \<longrightarrow> useAppFilters e st = Map.empty) \<and>
   (filters_state.models st = Some Map.empty \<longrightarrow> useModelFilters e st = Map.empty) \<and>
   (apps st = Some Map.empty \<longrightarrow> useAppFilters e st = Map.empty) \<and>
   emptyValue e JUndefined \<and> emptyValue e (JStr '''') \<and> \<not> emptyValue e (JStr ''x'') \<and>
   removeEmpty (emptyValue e) (Some [''a'' \<mapsto> JUndefined, ''b'' \<mapsto> JStr '''', ''c'' \<mapsto> JStr ''x''])
     = [''c'' \<mapsto> JStr ''x'']"
proof -
  have ex: "removeEmpty (emptyValue e)
              (Some [''a'' \<mapsto> JUndefined, ''b'' \<mapsto> JStr '''', ''c'' \<mapsto> JStr ''x''])
            = [''c'' \<mapsto> JStr ''x'']"
    by (rule ext) (simp add: removeEmpty_def emptyValue_def)
  have m: "useModelFilters e st \<subseteq>\<^sub>m obj \<and>
      (\<forall>k v. obj k = Some v \<longrightarrow> (useModelFilters e st k = Some v \<longleftrightarrow> \<not> emptyValue e v))"
    if "filters_state.models st = Some obj"
    using that
    by (auto simp: useModelFilters_def removeEmpty_def map_le_def dom_def
        split: option.splits if_splits)
  have a: "useAppFilters e st \<subseteq>\<^sub>m obj \<and>
      (\<forall>k v. obj k = Some v \<longrightarrow> (useAppFilters e st k = Some v \<longleftrightarrow> \<not> emptyValue e v))"
    if "apps st = Some obj"
    using that
    by (auto simp: useAppFilters_def removeEmpty_def map_le_def dom_def
        split: option.splits if_splits)
  from ex m a show ?thesis
    by (simp add: useModelFilters_def useAppFilters_def removeEmpty_def emptyValue_def)
qed

text \<open>
  The store with the slice \<^verbatim>\<open>{a: undefined, b: "", c: "x"}\<close> for the models and no
  slice for the apps; a store with an empty slice for the apps; and a slice with
  \<^verbatim>\<open>null\<close>, \<^verbatim>\<open>0\<close> and a tag, of which the tag is kept.
\<close>

theorem filters_remove_empty_witness:
  "useModelFilters sampleEnv
     \<lparr>filters_state.models = Some [''a'' \<mapsto> JUndefined, ''b'' \<mapsto> JStr '''', ''c'' \<mapsto> JStr ''x''],
      apps = None\<rparr>
     = [''c'' \<mapsto> JStr ''x''] \<and>
   useAppFilters sampleEnv
     \<lparr>filters_state.models = Some [''a'' \<mapsto> JUndefined, ''b'' \<mapsto> JStr '''', ''c'' \<mapsto> JStr ''x''],
      apps = None\<rparr>
     = Map.empty \<and>
   useAppFilters sampleEnv \<lparr>filters_state.models = None, apps = Some Map.empty\<rparr> = Map.empty \<and>
   useModelFilters sampleEnv
     \<lparr>filters_state.models = Some [''n'' \<mapsto> JNull, ''z'' \<mapsto> JNum 0, ''t'' \<mapsto> JStr ''tag''],
      apps = None\<rparr> ''t'' = Some (JStr ''tag'')"
proof -
  let ?st = "\<lparr>filters_state.models =
               Some [''a'' \<mapsto> JUndefined, ''b'' \<mapsto> JStr '''', ''c'' \<mapsto> JStr ''x''],
             apps = None\<rparr>"
  let ?st' = "\<lparr>filters_state.models = None, apps = Some Map.empty\<rparr>"
  let ?st'' = "\<lparr>filters_state.models =
                 Some [''n'' \<mapsto> JNull, ''z'' \<mapsto> JNum 0, ''t'' \<mapsto> JStr ''tag''],
              apps = None\<rparr>"
  from filters_remove_empty
    [of ?st "[''a'' \<mapsto> JUndefined, ''b'' \<mapsto> JStr '''', ''c'' \<mapsto> JStr ''x'']" sampleEnv]
  have 1: "removeEmpty (emptyValue sampleEnv)
             (Some [''a'' \<mapsto> JUndefined, ''b'' \<mapsto> JStr '''', ''c'' \<mapsto> JStr ''x''])
           = [''c'' \<mapsto> JStr ''x'']"
    and 2: "useAppFilters sampleEnv ?st = Map.empty"
    by simp_all
  from filters_remove_empty [of ?st' Map.empty sampleEnv]
  have 3: "useAppFilters sampleEnv ?st' = Map.empty"
    by simp
  from filters_remove_empty
    [of ?st'' "[''n'' \<mapsto> JNull, ''z'' \<mapsto> JNum 0, ''t'' \<mapsto> JStr ''tag'']" sampleEnv]
  have "[''n'' \<mapsto> JNull, ''z'' \<mapsto> JNum 0, ''t'' \<mapsto> JStr ''tag''] ''t'' = Some (JStr ''tag'') \<longrightarrow>
          (useModelFilters sampleEnv ?st'' ''t'' = Some (JStr ''tag'')
             \<longleftrightarrow> \<not> emptyValue sampleEnv (JStr ''tag''))"
    by simp
  then have 4: "useModelFilters sampleEnv ?st'' ''t'' = Some (JStr ''tag'')"
    by (simp add: emptyValue_def)
  from 1 2 3 4 show ?thesis
    by (simp add: useModelFilters_def)
qed

section \<open>Username normalisation is idempotent\<close>

text \<open>
  Claim C9. Normalising a normalised username changes nothing:
  \<^verbatim>\<open>postgresSlugify(postgresSlugify(u)) = postgresSlugify(u)\<close> for every string
  \<open>u\<close>, so also for every username the schema accepts; and the username the codec
  returns is a fixed point of the normalisation.
\<close>

theorem postgresSlugify_idempotent:
  "postgresSlugify (postgresSlugify u) = postgresSlugify u \<and>
   (usernameField e v = Some (JStr s) \<longrightarrow> postgresSlugify s = s)"
  by (auto simp: slug_idem usernameField_def split: option.splits)

theorem postgresSlugify_idempotent_witness:
  "postgresSlugify ''Some User'' = ''some_user'' \<and>
   postgresSlugify (postgresSlugify ''Some User'') = ''some_user'' \<and>
   usernameField sampleEnv (JStr ''Some_User'') = Some (JStr ''some_user'') \<and>
   postgresSlugify ''some_user'' = ''some_user''"
proof -
  have a: "postgresSlugify ''Some User'' = ''some_user''"
    by code_simp
  have b: "usernameField sampleEnv (JStr ''Some_User'') = Some (JStr ''some_user'')"
    by code_simp
  from postgresSlugify_idempotent [of "''Some User''" sampleEnv "JStr ''Some_User''" "''some_user''"]
    a b
  show ?thesis by simp
qed

end
